theory Spec2Isabelle
  imports Complex_Main "HOL-Library.Sublist"
begin

section \<open>Python strings\<close>

text \<open>
  A Python \<^verbatim>\<open>str\<close> is a sequence of Unicode code points, so it is modelled as a list
  of code points. \<open>ascii\<close> writes the ASCII part of a literal; the Japanese characters
  of the source's literals are given by their code points.
\<close>

type_synonym pystr = "nat list"

definition ascii :: "string \<Rightarrow> pystr" where
  "ascii s = map of_char s"

text \<open>\<^verbatim>\<open>sep.join(parts)\<close>: the parts with the separator between neighbours.\<close>

fun str_join :: "pystr \<Rightarrow> pystr list \<Rightarrow> pystr" where
  "str_join sep [] = []"
| "str_join sep [x] = x"
| "str_join sep (x # y # ys) = x @ sep @ str_join sep (y # ys)"

text \<open>
  \<^verbatim>\<open>xs[:k]\<close> for an integer \<open>k\<close>: the first \<open>k\<close> elements, and for a negative \<open>k\<close>
  all but the last \<open>-k\<close>. It never raises.
\<close>

definition py_slice_to :: "int \<Rightarrow> 'a list \<Rightarrow> 'a list" where
  "py_slice_to k xs =
     (if 0 \<le> k then take (nat k) xs else take (length xs - nat (- k)) xs)"

section \<open>Data model\<close>

text \<open>
  A dataset row is a dictionary with the keys \<^verbatim>\<open>"id"\<close>, \<^verbatim>\<open>"qid"\<close>, \<^verbatim>\<open>"question"\<close>,
  \<^verbatim>\<open>"answer"\<close> and \<^verbatim>\<open>"documents"\<close>; each document is a dictionary with the keys
  \<^verbatim>\<open>"title"\<close> and \<^verbatim>\<open>"text"\<close>. The rows follow the dataset's schema, so they are
  records; a field is named after its key, prefixed where the name is taken in HOL
  or by another dictionary.
\<close>

record document =
  document_title :: pystr
  document_text :: pystr

record 'i doc =
  doc_id :: 'i
  qid :: 'i
  question :: pystr
  answer :: pystr
  documents :: "document list"

text \<open>
  The four task classes differ in the \<^verbatim>\<open>doc_to_text\<close> method they define and in the
  class attributes read through \<^verbatim>\<open>self\<close>. A class is the record of these.
\<close>

datatype template = DefaultPrompt | FintanPrompt | JAAlpacaPrompt | RinnaInstructionSFT

record 'i task_class =
  template :: template
  SEP :: pystr
  REMOVE_IDS :: "'i list"
  TOP_K_LIMIT :: int

definition TOP_K_LIMIT_default :: int where
  "TOP_K_LIMIT_default = 10"

definition RCQA :: "'i task_class" where
  "RCQA = \<lparr>template = DefaultPrompt, SEP = [0xA], REMOVE_IDS = [],
            TOP_K_LIMIT = TOP_K_LIMIT_default\<rparr>"

text \<open>A subclass inherits the attributes of \<open>RCQA\<close> and overrides those it assigns.\<close>

definition RCQAWithFintanPrompt :: "'i task_class" where
  "RCQAWithFintanPrompt =
     RCQA\<lparr>template := FintanPrompt, SEP := [0xA], TOP_K_LIMIT := TOP_K_LIMIT_default\<rparr>"

definition RCQAWithJAAlpacaPrompt :: "'i task_class" where
  "RCQAWithJAAlpacaPrompt =
     RCQA\<lparr>template := JAAlpacaPrompt, TOP_K_LIMIT := TOP_K_LIMIT_default\<rparr>"

definition RCQAWithRinnaInstructionSFT :: "'i task_class" where
  "RCQAWithRinnaInstructionSFT =
     RCQA\<lparr>template := RinnaInstructionSFT, TOP_K_LIMIT := TOP_K_LIMIT_default,
          SEP := ascii ''<NL>''\<rparr>"

definition VERSIONS :: "'i task_class list" where
  "VERSIONS = [RCQA, RCQAWithFintanPrompt, RCQAWithJAAlpacaPrompt,
               RCQAWithRinnaInstructionSFT]"

text \<open>
  \<^verbatim>\<open>INSTRUCTION\<close> of the JA-Alpaca class:
  U+4E0E U+3048 U+3089 U+308C U+305F U+6587 U+8108 U+304B U+3089 U+3001 U+8CEA U+554F
  U+306B U+5BFE U+3059 U+308B U+7B54 U+3048 U+3092 U+629C U+304D U+51FA U+3057 U+3066
  U+304F U+3060 U+3055 U+3044 U+3002.
\<close>

definition INSTRUCTION :: pystr where
  "INSTRUCTION =
     [0x4E0E, 0x3048, 0x3089, 0x308C, 0x305F, 0x6587, 0x8108, 0x304B, 0x3089, 0x3001,
      0x8CEA, 0x554F, 0x306B, 0x5BFE, 0x3059, 0x308B, 0x7B54, 0x3048, 0x3092, 0x629C,
      0x304D, 0x51FA, 0x3057, 0x3066, 0x304F, 0x3060, 0x3055, 0x3044, 0x3002]"

section \<open>Prompt formatting\<close>

text \<open>\<^verbatim>\<open>doc["documents"][:self.TOP_K_LIMIT]\<close>, which every template starts from.\<close>

definition topk_documents :: "'i task_class \<Rightarrow> 'i doc \<Rightarrow> document list" where
  "topk_documents self d = py_slice_to (TOP_K_LIMIT self) (documents d)"

text \<open>
  The literals, in the order of the source:
  \<^item> default: \<^verbatim>\<open>"[" U+984C U+540D "]:"\<close> (title), \<^verbatim>\<open>"[" U+554F U+984C "]:"\<close> (passage),
    \<^verbatim>\<open>"[" U+8CEA U+554F "]:"\<close> (question), \<^verbatim>\<open>"[" U+7B54 U+3048 "]:"\<close> (answer);
  \<^item> Fintan: \<^verbatim>\<open>U+6587 U+7AE0 ":"\<close>, \<^verbatim>\<open>U+8CEA U+554F ":"\<close>, \<^verbatim>\<open>U+56DE U+7B54 ":"\<close>;
  \<^item> JA-Alpaca: \<^verbatim>\<open>"### " U+6307 U+793A ":\n"\<close>, \<^verbatim>\<open>"\n\n### " U+5165 U+529B ":\n"\<close>,
    \<^verbatim>\<open>U+6587 U+8108 U+FF1A\<close>, \<^verbatim>\<open>"\n" U+8CEA U+554F U+FF1A\<close>,
    \<^verbatim>\<open>"\n\n### " U+5FDC U+7B54 ":\n"\<close>;
  \<^item> Rinna: \<^verbatim>\<open>U+30E6 U+30FC U+30B6 U+30FC ": "\<close>, \<^verbatim>\<open>U+6587 U+8108 U+FF1A\<close>,
    \<^verbatim>\<open>U+8CEA U+554F U+FF1A\<close>, \<^verbatim>\<open>U+30B7 U+30B9 U+30C6 U+30E0 ": "\<close>.
\<close>

definition doc_to_text_default :: "'i task_class \<Rightarrow> 'i doc \<Rightarrow> pystr" where
  "doc_to_text_default self d =
     (let topk = topk_documents self d;
          context = str_join (SEP self)
            (map (\<lambda>document. [0x5B, 0x984C, 0x540D, 0x5D, 0x3A] @ document_title document
                    @ SEP self @ [0x5B, 0x554F, 0x984C, 0x5D, 0x3A] @ document_text document)
               topk)
      in context @ SEP self @ [0x5B, 0x8CEA, 0x554F, 0x5D, 0x3A] @ question d
           @ SEP self @ [0x5B, 0x7B54, 0x3048, 0x5D, 0x3A])"

definition doc_to_text_fintan :: "'i task_class \<Rightarrow> 'i doc \<Rightarrow> pystr" where
  "doc_to_text_fintan self d =
     (let context = str_join (SEP self) (map document_text (topk_documents self d))
      in [0x6587, 0x7AE0, 0x3A] @ context @ SEP self @ [0x8CEA, 0x554F, 0x3A] @ question d
           @ SEP self @ [0x56DE, 0x7B54, 0x3A])"

definition doc_to_text_alpaca :: "'i task_class \<Rightarrow> 'i doc \<Rightarrow> pystr" where
  "doc_to_text_alpaca self d =
     (let context = str_join (SEP self) (map document_text (topk_documents self d));
          input_text = [0x6587, 0x8108, 0xFF1A] @ context @ [0xA, 0x8CEA, 0x554F, 0xFF1A]
                         @ question d
      in ascii ''### '' @ [0x6307, 0x793A, 0x3A, 0xA] @ INSTRUCTION
           @ [0xA, 0xA] @ ascii ''### '' @ [0x5165, 0x529B, 0x3A, 0xA] @ input_text
           @ [0xA, 0xA] @ ascii ''### '' @ [0x5FDC, 0x7B54, 0x3A, 0xA])"

definition doc_to_text_rinna :: "'i task_class \<Rightarrow> 'i doc \<Rightarrow> pystr" where
  "doc_to_text_rinna self d =
     (let context = str_join (SEP self) (map document_text (topk_documents self d));
          input_text = [0x6587, 0x8108, 0xFF1A] @ context @ SEP self
                         @ [0x8CEA, 0x554F, 0xFF1A] @ question d
      in [0x30E6, 0x30FC, 0x30B6, 0x30FC, 0x3A, 0x20] @ input_text @ SEP self
           @ [0x30B7, 0x30B9, 0x30C6, 0x30E0, 0x3A, 0x20])"

text \<open>Method dispatch: the class of \<open>self\<close> selects the method.\<close>

definition doc_to_text :: "'i task_class \<Rightarrow> 'i doc \<Rightarrow> pystr" where
  "doc_to_text self d =
     (case template self of
        DefaultPrompt \<Rightarrow> doc_to_text_default self d
      | FintanPrompt \<Rightarrow> doc_to_text_fintan self d
      | JAAlpacaPrompt \<Rightarrow> doc_to_text_alpaca self d
      | RinnaInstructionSFT \<Rightarrow> doc_to_text_rinna self d)"

definition doc_to_target :: "'i task_class \<Rightarrow> 'i doc \<Rightarrow> pystr" where
  "doc_to_target self d = (let answer = answer d in answer)"

section \<open>Errors\<close>

text \<open>
  The exceptions the code can raise by itself. \<open>AssertionError\<close> carries the fixed part
  of the message and the list that the f-string prints after it; \<open>KeyError\<close> carries
  the missing key. The assertions are taken as enabled, as they are unless the
  interpreter is started with \<^verbatim>\<open>-O\<close>.
\<close>

datatype py_error =
    AssertionError pystr "pystr list"
  | ValueError pystr
  | KeyError pystr

section \<open>Dataset splits\<close>

record 'i dataset =
  dataset_train :: "'i doc list"
  dataset_test :: "'i doc list"

definition training_docs :: "'i task_class \<Rightarrow> 'i dataset \<Rightarrow> 'i doc list" where
  "training_docs self ds = dataset_train ds"

definition test_docs :: "'i task_class \<Rightarrow> 'i dataset \<Rightarrow> 'i doc list" where
  "test_docs self ds =
     (let dataset = dataset_test ds
      in if length (REMOVE_IDS self) > 0
         then filter (\<lambda>item. doc_id item \<notin> set (REMOVE_IDS self)) dataset
         else dataset)"

section \<open>Requests\<close>



text \<open>
  The tokenizer is external. What the code uses of it: whether it has an attribute
  \<^verbatim>\<open>encode\<close>, the names \<^verbatim>\<open>inspect.getfullargspec(encode).args\<close>, and the call of
  \<^verbatim>\<open>encode\<close> on a string with keyword arguments, which returns a list of token ids.
  Of the signature that \<^verbatim>\<open>inspect.getfullargspec\<close> reports, the record keeps the three
  parts through which a keyword argument can be taken: \<^verbatim>\<open>args\<close>, the names of the
  positional-or-keyword parameters; \<^verbatim>\<open>varkw\<close>, the name of the \<^verbatim>\<open>**\<close> parameter, if
  there is one; and \<^verbatim>\<open>kwonlyargs\<close>, the names of the keyword-only parameters. The code
  reads \<^verbatim>\<open>args\<close> alone.
\<close>

record encode_fn =
  argspec_args :: "pystr list"
  argspec_varkw :: "pystr option"
  argspec_kwonlyargs :: "pystr list"
  encode_call :: "pystr \<Rightarrow> (pystr \<rightharpoonup> bool) \<Rightarrow> int list"

record tokenizer =
  encode :: "encode_fn option"

text \<open>
  Modelled from the spec: the request factory \<^verbatim>\<open>rf\<close> of \<^verbatim>\<open>lm_eval.base\<close> is not part
  of the source at hand. A generation request is what the spec says the generation
  interface accepts: the prompt, the stop sequences and an optional maximum length.
\<close>

record request =
  request_ctx :: pystr
  until :: "pystr list"
  max_length :: "nat option"

definition greedy_until :: "pystr \<Rightarrow> pystr list \<Rightarrow> nat option \<Rightarrow> request" where
  "greedy_until ctx stop max_num_tokens =
     \<lparr>request_ctx = ctx, until = stop, max_length = max_num_tokens\<rparr>"

definition construct_requests ::
  "pystr \<Rightarrow> 'i task_class \<Rightarrow> tokenizer \<Rightarrow> 'i doc \<Rightarrow> pystr \<Rightarrow> request" where
  "construct_requests dynamic_max_length self tok d ctx =
     (if dynamic_max_length = ascii ''false'' \<or> encode tok = None
      then greedy_until ctx [SEP self] None
      else
        (let encode_fn = the (encode tok);
             encode_params =
               (if ascii ''add_special_tokens'' \<in> set (argspec_args encode_fn)
                then [ascii ''add_special_tokens'' \<mapsto> False]
                else Map.empty);
             max_num_tokens = length (encode_call encode_fn (answer d) encode_params)
         in greedy_until ctx [SEP self] (Some max_num_tokens)))"


section \<open>Scoring\<close>

record 'i prediction =
  prediction_id :: 'i
  prediction_text :: pystr

record answers =
  answers_text :: "pystr list"
  answer_start :: "int list"

record 'i reference =
  reference_id :: 'i
  reference_answers :: answers

definition process_results ::
  "'i task_class \<Rightarrow> 'i doc \<Rightarrow> pystr list
     \<Rightarrow> py_error + (pystr \<rightharpoonup> 'i prediction \<times> 'i reference)" where
  "process_results self d results =
     (if length results \<noteq> 1
      then Inl (AssertionError
                  (ascii ''results should be a list with 1 str element, but is '') results)
      else
        (let continuation = results ! 0;
             predictions = \<lparr>prediction_id = qid d, prediction_text = continuation\<rparr>;
             gold = \<lparr>answers_text = [answer d], answer_start = [- 1]\<rparr>;
             references = \<lparr>reference_id = qid d, reference_answers = gold\<rparr>
         in Inr [ascii ''exact_match'' \<mapsto> (predictions, references),
                 ascii ''f1'' \<mapsto> (predictions, references)]))"

text \<open>
  The metric object is external: its \<^verbatim>\<open>compute\<close> is a parameter, which returns a
  dictionary of scores or raises.
\<close>

definition squad_metric ::
  "('p list \<Rightarrow> 'r list \<Rightarrow> py_error + (pystr \<rightharpoonup> 's))
     \<Rightarrow> 'p list \<Rightarrow> 'r list \<Rightarrow> py_error + (pystr \<rightharpoonup> 's)" where
  "squad_metric compute predictions references = compute predictions references"

text \<open>
  \<^verbatim>\<open>predictions, references = zip(*item)\<close> for a list of pairs. With at least one pair,
  \<^verbatim>\<open>zip\<close> yields two tuples, the first and the second components. With no pair,
  \<^verbatim>\<open>zip()\<close> yields nothing and the assignment to two names raises \<^verbatim>\<open>ValueError\<close>.
\<close>

fun unpack_zip_star :: "('p \<times> 'r) list \<Rightarrow> py_error + ('p list \<times> 'r list)" where
  "unpack_zip_star [] =
     Inl (ValueError (ascii ''not enough values to unpack (expected 2, got 0)''))"
| "unpack_zip_star (x # xs) = Inr (map fst (x # xs), map snd (x # xs))"

definition squad_agg ::
  "('p list \<Rightarrow> 'r list \<Rightarrow> py_error + (pystr \<rightharpoonup> 's))
     \<Rightarrow> pystr \<Rightarrow> ('p \<times> 'r) list \<Rightarrow> py_error + 's" where
  "squad_agg compute key item =
     (case unpack_zip_star item of
        Inl e \<Rightarrow> Inl e
      | Inr (predictions, references) \<Rightarrow>
          (case squad_metric compute predictions references of
             Inl e \<Rightarrow> Inl e
           | Inr scores \<Rightarrow>
               (case scores key of None \<Rightarrow> Inl (KeyError key) | Some v \<Rightarrow> Inr v)))"

section \<open>Sample inputs\<close>

text \<open>
  Concrete inputs on which the theorems below are instantiated: a record with twelve
  context documents, a tokenizer whose \<^verbatim>\<open>encode\<close> lists \<^verbatim>\<open>add_special_tokens\<close> among its
  arguments and prepends one special token unless told not to, the same \<^verbatim>\<open>encode\<close>
  declared with \<^verbatim>\<open>add_special_tokens\<close> as a keyword-only parameter
  (\<^verbatim>\<open>def encode(self, text, *, add_special_tokens=True)\<close>), \<^verbatim>\<open>str.lower\<close> on ASCII
  text, and a metric that answers every input, the empty lists included.
\<close>

definition sample_doc :: "nat doc" where
  "sample_doc =
     \<lparr>doc_id = 7, qid = 7, question = ascii ''Q?'', answer = [0x6771, 0x4EAC],
      documents = replicate 12 \<lparr>document_title = ascii ''t'', document_text = ascii ''x''\<rparr>\<rparr>"





definition sample_compute ::
  "nat prediction list \<Rightarrow> nat reference list \<Rightarrow> py_error + (pystr \<rightharpoonup> real)" where
  "sample_compute predictions references =
     Inr [ascii ''exact_match'' \<mapsto> 0, ascii ''f1'' \<mapsto> 0]"

section \<open>Auxiliary facts\<close>

lemma sublist_skip: "sublist q ys \<Longrightarrow> sublist q (a @ ys)"
  unfolding sublist_def by (metis append.assoc)

lemma sublist_here: "sublist q (q @ r)"
  by simp

lemma sublist_question_default: "sublist (question d) (doc_to_text_default self d)"
  unfolding doc_to_text_default_def Let_def append_assoc
  by (rule sublist_skip, rule sublist_skip, rule sublist_skip, rule sublist_here)

lemma sublist_question_fintan: "sublist (question d) (doc_to_text_fintan self d)"
  unfolding doc_to_text_fintan_def Let_def append_assoc
  by (rule sublist_skip, rule sublist_skip, rule sublist_skip, rule sublist_skip,
      rule sublist_here)

lemma sublist_question_alpaca: "sublist (question d) (doc_to_text_alpaca self d)"
  unfolding doc_to_text_alpaca_def Let_def append_assoc
  by (rule sublist_skip, rule sublist_skip, rule sublist_skip, rule sublist_skip,
      rule sublist_skip, rule sublist_skip, rule sublist_skip, rule sublist_skip,
      rule sublist_skip, rule sublist_here)

lemma sublist_question_rinna: "sublist (question d) (doc_to_text_rinna self d)"
  unfolding doc_to_text_rinna_def Let_def append_assoc
  by (rule sublist_skip, rule sublist_skip, rule sublist_skip, rule sublist_skip,
      rule sublist_skip, rule sublist_here)

lemma sublist_question: "sublist (question d) (doc_to_text self d)"
  by (cases "template self")
    (simp_all add: doc_to_text_def sublist_question_default sublist_question_fintan
      sublist_question_alpaca sublist_question_rinna)

lemma suffix_default:
  "template self = DefaultPrompt \<Longrightarrow>
     suffix [0x5B, 0x7B54, 0x3048, 0x5D, 0x3A] (doc_to_text self d)"
  by (simp add: doc_to_text_def doc_to_text_default_def suffix_to_prefix)

lemma suffix_fintan:
  "template self = FintanPrompt \<Longrightarrow> suffix [0x56DE, 0x7B54, 0x3A] (doc_to_text self d)"
  by (simp add: doc_to_text_def doc_to_text_fintan_def suffix_to_prefix)

lemma suffix_alpaca:
  "template self = JAAlpacaPrompt \<Longrightarrow>
     suffix (ascii ''### '' @ [0x5FDC, 0x7B54, 0x3A, 0xA]) (doc_to_text self d)"
  by (simp add: doc_to_text_def doc_to_text_alpaca_def suffix_to_prefix)

lemma suffix_rinna:
  "template self = RinnaInstructionSFT \<Longrightarrow>
     suffix [0x30B7, 0x30B9, 0x30C6, 0x30E0, 0x3A, 0x20] (doc_to_text self d)"
  by (simp add: doc_to_text_def doc_to_text_rinna_def suffix_to_prefix)

lemma TOP_K_LIMIT_VERSIONS: "self \<in> set VERSIONS \<Longrightarrow> TOP_K_LIMIT self = 10"
  by (auto simp: VERSIONS_def RCQA_def RCQAWithFintanPrompt_def RCQAWithJAAlpacaPrompt_def
      RCQAWithRinnaInstructionSFT_def TOP_K_LIMIT_default_def)

lemma topk_documents_VERSIONS:
  "self \<in> set VERSIONS \<Longrightarrow> topk_documents self d = take 10 (documents d)"
  by (simp add: TOP_K_LIMIT_VERSIONS topk_documents_def py_slice_to_def)

text \<open>The prompt depends on the record through its question and its first documents only.\<close>

lemma doc_to_text_cong:
  "topk_documents self d = topk_documents self d' \<Longrightarrow> question d = question d'
     \<Longrightarrow> doc_to_text self d = doc_to_text self d'"
  by (simp add: doc_to_text_def doc_to_text_default_def doc_to_text_fintan_def
      doc_to_text_alpaca_def doc_to_text_rinna_def split: template.splits)

section \<open>The prompt of the default template on the example record\<close>

text \<open>
  C1. For a record with gold answer U+6771 U+4EAC, question \<open>q\<close> and exactly one context
  document, titled U+65E5 U+672C U+306E U+9996 U+90FD with body
  U+6771 U+4EAC U+306F U+65E5 U+672C U+306E U+9996 U+90FD U+3067 U+3059 U+3002,
  \<open>doc_to_text\<close> of the class \<open>RCQA\<close> (separator: newline) returns the title label, the
  title, a newline, the passage label, the body, a newline, the question label, \<open>q\<close>,
  a newline and the answer label, and nothing else.
\<close>

theorem doc_to_text_default_example:
  "doc_to_text RCQA
     \<lparr>doc_id = i, qid = j, question = q, answer = [0x6771, 0x4EAC],
      documents = [\<lparr>document_title = [0x65E5, 0x672C, 0x306E, 0x9996, 0x90FD],
                    document_text = [0x6771, 0x4EAC, 0x306F, 0x65E5, 0x672C, 0x306E, 0x9996,
                                     0x90FD, 0x3067, 0x3059, 0x3002]\<rparr>]\<rparr>
   = [0x5B, 0x984C, 0x540D, 0x5D, 0x3A] @ [0x65E5, 0x672C, 0x306E, 0x9996, 0x90FD] @ [0xA]
     @ [0x5B, 0x554F, 0x984C, 0x5D, 0x3A]
     @ [0x6771, 0x4EAC, 0x306F, 0x65E5, 0x672C, 0x306E, 0x9996, 0x90FD, 0x3067, 0x3059, 0x3002]
     @ [0xA] @ [0x5B, 0x8CEA, 0x554F, 0x5D, 0x3A] @ q @ [0xA]
     @ [0x5B, 0x7B54, 0x3048, 0x5D, 0x3A]"
  by (simp add: doc_to_text_def doc_to_text_default_def topk_documents_def py_slice_to_def
      RCQA_def TOP_K_LIMIT_default_def)

section \<open>The cap on the context documents\<close>

text \<open>
  C2. For every record and each of the four classes, the prompt is assembled from at
  most \<open>TOP_K_LIMIT\<close> context documents, and \<open>TOP_K_LIMIT\<close> is 10: the documents used are
  the first ten of the record, the prompt is the prompt of the record cut down to them,
  and documents added beyond the tenth leave the prompt as it is. The formatter is a
  total function, so a longer list is cut without an error.
\<close>

theorem doc_to_text_top_k_limit:
  assumes "self \<in> set VERSIONS"
  shows "TOP_K_LIMIT self = 10
    \<and> topk_documents self d = take 10 (documents d)
    \<and> length (topk_documents self d) \<le> 10
    \<and> doc_to_text self d = doc_to_text self (d\<lparr>documents := topk_documents self d\<rparr>)
    \<and> (10 \<le> length (documents d) \<longrightarrow>
          doc_to_text self (d\<lparr>documents := documents d @ extra\<rparr>) = doc_to_text self d)"
proof -
  note t = topk_documents_VERSIONS [OF assms]
  have "doc_to_text self d = doc_to_text self (d\<lparr>documents := topk_documents self d\<rparr>)"
    by (rule doc_to_text_cong) (simp_all add: t)
  moreover have "doc_to_text self (d\<lparr>documents := documents d @ extra\<rparr>) = doc_to_text self d"
    if "10 \<le> length (documents d)"
    by (rule doc_to_text_cong) (use that in \<open>simp_all add: t\<close>)
  ultimately show ?thesis
    using TOP_K_LIMIT_VERSIONS [OF assms] by (simp add: t)
qed

text \<open>The record with twelve documents, under the Rinna class, and a thirteenth added.\<close>

theorem doc_to_text_top_k_limit_witness:
  "RCQAWithRinnaInstructionSFT \<in> set (VERSIONS :: nat task_class list)
   \<and> length (documents sample_doc) = 12
   \<and> length (topk_documents RCQAWithRinnaInstructionSFT sample_doc) \<le> 10
   \<and> doc_to_text RCQAWithRinnaInstructionSFT sample_doc =
       doc_to_text RCQAWithRinnaInstructionSFT
         (sample_doc\<lparr>documents := take 10 (documents sample_doc)\<rparr>)
   \<and> doc_to_text RCQAWithRinnaInstructionSFT
         (sample_doc\<lparr>documents := documents sample_doc
            @ [\<lparr>document_title = ascii ''u'', document_text = ascii ''y''\<rparr>]\<rparr>) =
       doc_to_text RCQAWithRinnaInstructionSFT sample_doc"
proof -
  have v: "RCQAWithRinnaInstructionSFT \<in> set (VERSIONS :: nat task_class list)"
    by (simp add: VERSIONS_def)
  have l: "length (documents sample_doc) = 12"
    by (simp add: sample_doc_def)
  show ?thesis
    using v l doc_to_text_top_k_limit [OF v, of sample_doc "[\<lparr>document_title = ascii ''u'', document_text = ascii ''y''\<rparr>]"]
    by simp
qed

section \<open>Question and answer cue\<close>

text \<open>
  C3. For every record and each of the four classes, the prompt contains the question
  as a contiguous substring and ends with the answer cue of the class:
  \<^verbatim>\<open>"[" U+7B54 U+3048 "]:"\<close> for the default, \<^verbatim>\<open>U+56DE U+7B54 ":"\<close> for Fintan,
  \<^verbatim>\<open>"### " U+5FDC U+7B54 ":\n"\<close> for JA-Alpaca and \<^verbatim>\<open>U+30B7 U+30B9 U+30C6 U+30E0 ": "\<close>
  for Rinna.
\<close>

theorem doc_to_text_question_and_cue:
  "sublist (question d) (doc_to_text RCQA d)
   \<and> suffix [0x5B, 0x7B54, 0x3048, 0x5D, 0x3A] (doc_to_text RCQA d)
   \<and> sublist (question d) (doc_to_text RCQAWithFintanPrompt d)
   \<and> suffix [0x56DE, 0x7B54, 0x3A] (doc_to_text RCQAWithFintanPrompt d)
   \<and> sublist (question d) (doc_to_text RCQAWithJAAlpacaPrompt d)
   \<and> suffix (ascii ''### '' @ [0x5FDC, 0x7B54, 0x3A, 0xA])
         (doc_to_text RCQAWithJAAlpacaPrompt d)
   \<and> sublist (question d) (doc_to_text RCQAWithRinnaInstructionSFT d)
   \<and> suffix [0x30B7, 0x30B9, 0x30C6, 0x30E0, 0x3A, 0x20]
         (doc_to_text RCQAWithRinnaInstructionSFT d)"
  by (simp add: sublist_question suffix_default suffix_fintan suffix_alpaca suffix_rinna
      RCQA_def RCQAWithFintanPrompt_def RCQAWithJAAlpacaPrompt_def
      RCQAWithRinnaInstructionSFT_def)

section \<open>The check on the number of model outputs\<close>

text \<open>
  C4. For every record, \<open>process_results\<close> ends in an error exactly when the list of
  model outputs does not have length one. On two outputs it raises the assertion
  error, whose message names the list it was given; on one output it returns a result.
\<close>

theorem process_results_assertion:
  "(isl (process_results self d results) \<longleftrightarrow> length results \<noteq> 1)
   \<and> process_results self d [a, b] =
       Inl (AssertionError
              (ascii ''results should be a list with 1 str element, but is '') [a, b])
   \<and> (\<exists>m. process_results self d [a] = Inr m)"
  by (simp add: process_results_def Let_def)

section \<open>The maximum generation length\<close>




section \<open>Aggregation\<close>

text \<open>
  C6, as stated, fails: on the empty list the aggregation raises by itself, in the
  unpacking of \<^verbatim>\<open>zip(*item)\<close>, although the metric at hand accepts empty lists.
\<close>

theorem squad_agg_empty_counterexample:
  "isl (squad_agg sample_compute (ascii ''f1'') [])
   \<and> \<not> isl (sample_compute [] [])"
  by (simp add: squad_agg_def sample_compute_def)

text \<open>
  C6, amended. On the empty list \<open>squad_agg\<close> raises \<^verbatim>\<open>ValueError\<close> before the metric
  is called, whatever the metric. On a list of at least one pair it calls the metric
  once, on the predictions and on the references in the order of the list, and returns
  the score stored under the key; an error of the metric or a missing key is passed on.
\<close>

theorem squad_agg_unpack:
  "squad_agg compute key [] =
     Inl (ValueError (ascii ''not enough values to unpack (expected 2, got 0)''))
   \<and> squad_agg compute key (x # xs) =
       (case compute (map fst (x # xs)) (map snd (x # xs)) of
          Inl e \<Rightarrow> Inl e
        | Inr scores \<Rightarrow> (case scores key of None \<Rightarrow> Inl (KeyError key) | Some v \<Rightarrow> Inr v))"
  by (simp add: squad_agg_def squad_metric_def)

section \<open>The exclusion list\<close>

text \<open>
  C7, as stated, fails for the train split: with the identifier 7 excluded, the record
  with that identifier is still returned by \<open>training_docs\<close>, while \<open>test_docs\<close> drops it.
\<close>

theorem training_docs_counterexample:
  "doc_id sample_doc \<in> set (REMOVE_IDS (RCQA\<lparr>REMOVE_IDS := [7]\<rparr>))
   \<and> sample_doc \<in> set (training_docs (RCQA\<lparr>REMOVE_IDS := [7]\<rparr>)
        \<lparr>dataset_train = [sample_doc], dataset_test = [sample_doc]\<rparr>)
   \<and> sample_doc \<notin> set (test_docs (RCQA\<lparr>REMOVE_IDS := [7]\<rparr>)
        \<lparr>dataset_train = [sample_doc], dataset_test = [sample_doc]\<rparr>)"
  by (simp add: training_docs_def test_docs_def sample_doc_def RCQA_def)

text \<open>
  C7, amended. The test split is filtered by \<open>REMOVE_IDS\<close>: \<open>test_docs\<close> returns the
  records of the test split whose \<^verbatim>\<open>"id"\<close> is not in the list, in their order, and the
  whole split when the list is empty. The train split is not filtered: \<open>training_docs\<close>
  returns it as it is.
\<close>

theorem docs_filtering:
  "test_docs self ds = filter (\<lambda>item. doc_id item \<notin> set (REMOVE_IDS self)) (dataset_test ds)
   \<and> (x \<in> set (test_docs self ds)
        \<longleftrightarrow> x \<in> set (dataset_test ds) \<and> doc_id x \<notin> set (REMOVE_IDS self))
   \<and> subseq (test_docs self ds) (dataset_test ds)
   \<and> test_docs (self\<lparr>REMOVE_IDS := []\<rparr>) ds = dataset_test ds
   \<and> training_docs self ds = dataset_train ds"
  by (auto simp: test_docs_def training_docs_def Let_def)

section \<open>The stop sequence\<close>

text \<open>
  C8. In every branch of \<open>construct_requests\<close> the stop sequences of the request are
  the one-element list of the separator \<open>SEP\<close> of the class; for the Rinna class that
  is \<^verbatim>\<open>"<NL>"\<close>.
\<close>

theorem construct_requests_until:
  "until (construct_requests dml self tok d ctx) = [SEP self]
   \<and> SEP self \<in> set (until (construct_requests dml self tok d ctx))
   \<and> until (construct_requests dml RCQAWithRinnaInstructionSFT tok d ctx) = [ascii ''<NL>'']"
  by (simp add: construct_requests_def greedy_until_def Let_def
      RCQAWithRinnaInstructionSFT_def)

section \<open>The pairs handed to the metric\<close>

text \<open>
  C9. For every record and every one-element list of outputs, \<open>process_results\<close>
  returns a dictionary that maps \<^verbatim>\<open>"exact_match"\<close> and \<^verbatim>\<open>"f1"\<close> to the same pair of a
  prediction and a reference. Both carry the \<^verbatim>\<open>"qid"\<close> of the record as identifier; the
  prediction text is the output, and the reference holds the gold answer as a
  one-element list of texts with the answer start \<open>[-1]\<close>.
\<close>

theorem process_results_pairs:
  "\<exists>m p g. process_results self d [r] = Inr m
     \<and> m (ascii ''exact_match'') = Some (p, g)
     \<and> m (ascii ''f1'') = Some (p, g)
     \<and> p = \<lparr>prediction_id = qid d, prediction_text = r\<rparr>
     \<and> g = \<lparr>reference_id = qid d,
            reference_answers = \<lparr>answers_text = [answer d], answer_start = [- 1]\<rparr>\<rparr>"
  by (simp add: process_results_def Let_def ascii_def)

section \<open>The target\<close>

text \<open>
  C10. For every record, \<open>doc_to_target\<close> returns the gold answer as it is stored, for
  every class, and so for each of the four.
\<close>

theorem doc_to_target_answer:
  "doc_to_target self d = answer d
   \<and> map (\<lambda>c. doc_to_target c d) VERSIONS = replicate 4 (answer d)"
  by (simp add: doc_to_target_def VERSIONS_def numeral_eq_Suc)

end
